theory Spec2Isabelle
  imports Complex_Main "HOL-Library.AList"
begin

section \<open>JavaScript values\<close>

text \<open>
  The request layer is written against \<open>any\<close>: per-call configurations, payloads and
  response bodies are arbitrary JavaScript values. They are modelled by one datatype.
  Numbers are kept as exact rationals (the code only compares them with \<open>===\<close> against
  200 and 500; NaN, the infinities and the rounding of doubles are not modelled).
  An object is the list of its own enumerable properties in insertion order.
  Functions are opaque to this layer (it stores and forwards them), so a function
  value is a reference: the two transformers the module defines, or a caller's function.
\<close>

datatype jsfun = PlainRequestTransformer | PlainResponseTransformer | UserFn nat

datatype jsval =
    JUndefined
  | JNull
  | JBool bool
  | JNum rat
  | JStr string
  | JArr "jsval list"
  | JObj "(string \<times> jsval) list"
  | JFun jsfun

type_synonym obj = "(string \<times> jsval) list"

text \<open>\<open>v.k\<close> on a value that is neither \<open>null\<close> nor \<open>undefined\<close>, for a key that is not
  a built-in property of a primitive (\<open>code\<close>, \<open>data\<close>, \<open>message\<close>, \<open>headers\<close>).\<close>

definition get_prop :: "jsval \<Rightarrow> string \<Rightarrow> jsval" where
  "get_prop v k =
     (case v of
        JObj kvs \<Rightarrow> (case map_of kvs k of Some x \<Rightarrow> x | None \<Rightarrow> JUndefined)
      | _ \<Rightarrow> JUndefined)"

definition nullish :: "jsval \<Rightarrow> bool" where
  "nullish v = (v = JUndefined \<or> v = JNull)"

text \<open>\<open>v?.k\<close>\<close>

definition opt_prop :: "jsval \<Rightarrow> string \<Rightarrow> jsval" where
  "opt_prop v k = (if nullish v then JUndefined else get_prop v k)"

definition truthy :: "jsval \<Rightarrow> bool" where
  "truthy v = (v \<noteq> JUndefined \<and> v \<noteq> JNull \<and> v \<noteq> JBool False \<and> v \<noteq> JNum 0 \<and> v \<noteq> JStr [])"

text \<open>\<open>a || b\<close> and \<open>a ?? b\<close>\<close>

definition js_or :: "jsval \<Rightarrow> jsval \<Rightarrow> jsval" where
  "js_or a b = (if truthy a then a else b)"

definition js_coalesce :: "jsval \<Rightarrow> jsval \<Rightarrow> jsval" where
  "js_coalesce a b = (if nullish a then b else a)"

fun show_nat :: "nat \<Rightarrow> string" where
  "show_nat n =
     (if n < 10 then [''0123456789'' ! n]
      else show_nat (n div 10) @ [''0123456789'' ! (n mod 10)])"

definition index_keys :: "nat \<Rightarrow> string list" where
  "index_keys n = map show_nat [0..<n]"

text \<open>The own enumerable properties an object spread \<open>{...v}\<close> copies: those of an
  object, the indexed elements of an array, the indexed characters of a string, and
  nothing for any other value.\<close>

fun own_props :: "jsval \<Rightarrow> obj" where
  "own_props (JObj kvs) = kvs"
| "own_props (JArr xs) = zip (index_keys (length xs)) xs"
| "own_props (JStr s) = zip (index_keys (length s)) (map (\<lambda>c. JStr [c]) s)"
| "own_props _ = []"

text \<open>An object literal is evaluated left to right: \<open>k: v\<close> defines or overwrites a
  property, \<open>...v\<close> does so for every own property of \<open>v\<close>.\<close>

definition set_prop :: "string \<Rightarrow> jsval \<Rightarrow> obj \<Rightarrow> obj" where
  "set_prop k v ob = AList.update k v ob"

definition spread_into :: "obj \<Rightarrow> jsval \<Rightarrow> obj" where
  "spread_into ob v = fold (\<lambda>(k, x). AList.update k x) (own_props v) ob"

section \<open>Errors, the console and the network\<close>

text \<open>
  A thrown value or a rejected promise is the left summand of the result.
  \<open>ProtocolError c m\<close> is the object \<open>{ code: c, message: m }\<close> that \<open>responseHandler\<close>
  throws; \<open>ZodError\<close> is the validation error of the schema library (the
  specification calls it ValidationError); \<open>TransportError\<close> is a rejection of the HTTP
  client; \<open>SyntaxError\<close> is thrown by \<open>JSON.parse\<close> and \<open>TypeError\<close> by a property read
  on \<open>null\<close> or \<open>undefined\<close>. \<open>Unmodelled\<close> marks the one input the model of \<open>JSON.parse\<close>
  cannot represent (a \<open>u\<close> escape above 00FF, see there).
\<close>

datatype ZodIssue = ZodIssue (issue_path: "jsval list") (issue_message: string)

datatype error =
    ProtocolError jsval jsval
  | ZodError "ZodIssue list"
  | TransportError jsval
  | SyntaxError
  | TypeError
  | Unmodelled

text \<open>The observable state: the request descriptors handed to the HTTP client, in
  order, and the lines written with \<open>console.error\<close>.\<close>

record world =
  sent :: "obj list"
  console :: "jsval list list"

text \<open>
  The HTTP client (the axios instance with its interceptors and the server behind it) is
  external; it is a parameter: a function from the request descriptor to the rejection
  or to \<open>response.data\<close>.
\<close>

type_synonym transport = "obj \<Rightarrow> error + jsval"

definition axios_request :: "transport \<Rightarrow> obj \<Rightarrow> world \<Rightarrow> (error + jsval) \<times> world" where
  "axios_request t req w = (t req, w\<lparr>sent := sent w @ [req]\<rparr>)"

text \<open>\<open>instance.get(url, config)\<close>, \<open>instance.delete(url, config)\<close>: the client merges
  the method and the URL into the configuration; \<open>instance.post(url, data, config)\<close> and
  \<open>instance.put(url, data, config)\<close> merge the payload as well.\<close>

definition axios_get :: "transport \<Rightarrow> string \<Rightarrow> obj \<Rightarrow> world \<Rightarrow> (error + jsval) \<times> world" where
  "axios_get t url config =
     axios_request t (set_prop ''url'' (JStr url) (set_prop ''method'' (JStr ''get'') config))"

definition axios_delete :: "transport \<Rightarrow> string \<Rightarrow> obj \<Rightarrow> world \<Rightarrow> (error + jsval) \<times> world" where
  "axios_delete t url config =
     axios_request t (set_prop ''url'' (JStr url) (set_prop ''method'' (JStr ''delete'') config))"

definition axios_post ::
  "transport \<Rightarrow> string \<Rightarrow> jsval \<Rightarrow> obj \<Rightarrow> world \<Rightarrow> (error + jsval) \<times> world" where
  "axios_post t url payload config =
     axios_request t
       (set_prop ''data'' payload
         (set_prop ''url'' (JStr url) (set_prop ''method'' (JStr ''post'') config)))"

definition axios_put ::
  "transport \<Rightarrow> string \<Rightarrow> jsval \<Rightarrow> obj \<Rightarrow> world \<Rightarrow> (error + jsval) \<times> world" where
  "axios_put t url payload config =
     axios_request t
       (set_prop ''data'' payload
         (set_prop ''url'' (JStr url) (set_prop ''method'' (JStr ''put'') config)))"

section \<open>The plain design: envelope unwrapping\<close>

record ApiResponse =
  code :: jsval
  data :: jsval
  message :: jsval
  timestamp :: jsval

text \<open>The body of a response read as an \<open>ApiResponse\<close>: a field that is missing reads
  as \<open>undefined\<close>, and reading a field of \<open>null\<close> or \<open>undefined\<close> throws.\<close>

definition as_ApiResponse :: "jsval \<Rightarrow> error + ApiResponse" where
  "as_ApiResponse body =
     (if nullish body then Inl TypeError
      else Inr \<lparr>code = get_prop body ''code'', data = get_prop body ''data'',
                message = get_prop body ''message'', timestamp = get_prop body ''timestamp''\<rparr>)"

definition responseHandler :: "ApiResponse \<Rightarrow> world \<Rightarrow> (error + jsval) \<times> world" where
  "responseHandler res w =
     (if code res = JNum 500 then
        (Inl (ProtocolError (code res) (message res)),
         w\<lparr>console := console w @ [[code res, message res]]\<rparr>)
      else if code res \<noteq> JUndefined \<and> code res \<noteq> JNum 200 then
        (Inl (ProtocolError (code res) (message res)), w)
      else (Inr (js_coalesce (data res) (JBool True)), w))"

section \<open>The plain design: configuration\<close>

record ApiConfig =
  rootPath :: string
  preProcessingCallback :: "jsfun option"
  postProcessingCallback :: "jsfun option"
  apiErrorHandler :: "jsfun option"
  additionalHeader :: "(string \<times> string) list option"
  transformRequest :: "jsfun list option"
  transformResponse :: "jsfun list option"

definition getUrl :: "ApiConfig \<Rightarrow> string \<Rightarrow> string" where
  "getUrl cfg apiPath =
     rootPath cfg @ (if take 1 apiPath = ''/'' then apiPath else ''/'' @ apiPath)"

text \<open>\<open>xs && xs.length > 0 ? { [key]: xs } : {}\<close> for an optional array of functions
  (an array is always truthy).\<close>

definition non_empty :: "'a list option \<Rightarrow> bool" where
  "non_empty xs = (case xs of None \<Rightarrow> False | Some l \<Rightarrow> 0 < length l)"

definition transformer_entry :: "string \<Rightarrow> jsfun list option \<Rightarrow> jsval" where
  "transformer_entry key xs =
     (case xs of
        None \<Rightarrow> JObj []
      | Some l \<Rightarrow> if 0 < length l then JObj [(key, JArr (map JFun l))] else JObj [])"

definition addGlobalConfig :: "ApiConfig \<Rightarrow> jsval \<Rightarrow> obj" where
  "addGlobalConfig cfg config =
     (let transformers =
            spread_into
              (spread_into [] (transformer_entry ''transformRequest'' (transformRequest cfg)))
              (transformer_entry ''transformResponse'' (transformResponse cfg));
          headers =
            set_prop ''X-ENCRYPTED''
              (JStr (if non_empty (transformRequest cfg) then ''yes'' else ''no''))
              (spread_into [] (js_or (opt_prop config ''headers'') (JObj [])))
      in set_prop ''withCredentials'' (JBool True)
           (set_prop ''headers'' (JObj headers)
             (spread_into (spread_into [] (JObj transformers)) config)))"

section \<open>The plain design: the call wrappers\<close>

text \<open>\<open>const response = await \<dots>; return responseHandler(response.data)\<close>: a rejection
  of the client is passed on; otherwise the body is unwrapped. \<open>postRaw\<close> and
  \<open>postTransformed\<close> return the client's promise as it is; its response is represented
  by its data.\<close>

definition unwrap_response :: "(error + jsval) \<times> world \<Rightarrow> (error + jsval) \<times> world" where
  "unwrap_response r =
     (case r of
        (Inl e, w) \<Rightarrow> (Inl e, w)
      | (Inr body, w) \<Rightarrow>
          (case as_ApiResponse body of
             Inl e \<Rightarrow> (Inl e, w)
           | Inr res \<Rightarrow> responseHandler res w))"

definition API_get ::
  "transport \<Rightarrow> ApiConfig \<Rightarrow> string \<Rightarrow> jsval \<Rightarrow> world \<Rightarrow> (error + jsval) \<times> world" where
  "API_get t cfg apiPath config w =
     unwrap_response (axios_get t (getUrl cfg apiPath) (addGlobalConfig cfg config) w)"

definition API_post ::
  "transport \<Rightarrow> ApiConfig \<Rightarrow> string \<Rightarrow> jsval \<Rightarrow> jsval \<Rightarrow> world \<Rightarrow> (error + jsval) \<times> world" where
  "API_post t cfg apiPath payload config w =
     unwrap_response (axios_post t (getUrl cfg apiPath) payload (addGlobalConfig cfg config) w)"

definition API_postRaw ::
  "transport \<Rightarrow> ApiConfig \<Rightarrow> string \<Rightarrow> jsval \<Rightarrow> jsval \<Rightarrow> world \<Rightarrow> (error + jsval) \<times> world" where
  "API_postRaw t cfg apiPath payload config w =
     axios_post t (getUrl cfg apiPath) payload (addGlobalConfig cfg config) w"

text \<open>The configuration \<open>postTransformed\<close> hands to the client, \<open>{ ...conf,
  withCredentials: true }\<close>; an omitted transform function is \<open>None\<close>.\<close>

definition postTransformed_config :: "jsfun option \<Rightarrow> jsfun option \<Rightarrow> jsval \<Rightarrow> obj" where
  "postTransformed_config transformReq transformResp config =
     (let conf =
            set_prop ''transformResponse''
              (JArr [JFun (case transformResp of None \<Rightarrow> PlainResponseTransformer | Some f \<Rightarrow> f)])
              (set_prop ''transformRequest''
                (JArr [JFun (case transformReq of None \<Rightarrow> PlainRequestTransformer | Some f \<Rightarrow> f)])
                (set_prop ''headers''
                  (JObj (set_prop ''X-ENCRYPTED'' (JStr ''yes'')
                          (spread_into [] (opt_prop config ''headers''))))
                  (spread_into [] config)))
      in set_prop ''withCredentials'' (JBool True) (spread_into [] (JObj conf)))"

definition API_postTransformed ::
  "transport \<Rightarrow> ApiConfig \<Rightarrow> string \<Rightarrow> jsval \<Rightarrow> jsfun option \<Rightarrow> jsfun option \<Rightarrow> jsval \<Rightarrow>
     world \<Rightarrow> (error + jsval) \<times> world" where
  "API_postTransformed t cfg apiPath payload transformReq transformResp config w =
     axios_post t (getUrl cfg apiPath) payload
       (postTransformed_config transformReq transformResp config) w"

definition API_patch ::
  "transport \<Rightarrow> ApiConfig \<Rightarrow> string \<Rightarrow> jsval \<Rightarrow> jsval \<Rightarrow> world \<Rightarrow> (error + jsval) \<times> world" where
  "API_patch t cfg apiPath payload config w =
     unwrap_response (axios_post t (getUrl cfg apiPath) payload (addGlobalConfig cfg config) w)"

definition API_put ::
  "transport \<Rightarrow> ApiConfig \<Rightarrow> string \<Rightarrow> jsval \<Rightarrow> jsval \<Rightarrow> world \<Rightarrow> (error + jsval) \<times> world" where
  "API_put t cfg apiPath payload config w =
     unwrap_response (axios_put t (getUrl cfg apiPath) payload (addGlobalConfig cfg config) w)"

definition API_delete ::
  "transport \<Rightarrow> ApiConfig \<Rightarrow> string \<Rightarrow> jsval \<Rightarrow> world \<Rightarrow> (error + jsval) \<times> world" where
  "API_delete t cfg apiPath config w =
     unwrap_response (axios_delete t (getUrl cfg apiPath) (addGlobalConfig cfg config) w)"

section \<open>The schema-validated design\<close>

text \<open>
  The schema library (zod) is external. A schema is represented by its \<open>safeParse\<close>:
  a function from the datum to \<open>{ success: true, data }\<close> or to \<open>{ success: false,
  error }\<close>, of which the validator reads \<open>error.issues\<close>.
\<close>

datatype SafeParseReturnType = SafeParseSuccess jsval | SafeParseError "ZodIssue list"

type_synonym ZodType = "jsval \<Rightarrow> SafeParseReturnType"

definition createSchemaValidator :: "ZodType \<Rightarrow> jsval \<Rightarrow> error + jsval" where
  "createSchemaValidator schema d =
     (case schema d of
        SafeParseSuccess out \<Rightarrow> Inr out
      | SafeParseError issues \<Rightarrow> Inl (ZodError issues))"

text \<open>\<open>const response = await axiosInstance.request(extendedConfig); return
  createSchemaValidator(config.ResponseDataSchema)(response.data)\<close>\<close>

definition request_validated ::
  "transport \<Rightarrow> ZodType \<Rightarrow> obj \<Rightarrow> world \<Rightarrow> (error + jsval) \<times> world" where
  "request_validated t responseSchema extendedConfig w =
     (case axios_request t extendedConfig w of
        (Inl e, w') \<Rightarrow> (Inl e, w')
      | (Inr body, w') \<Rightarrow> (createSchemaValidator responseSchema body, w'))"

text \<open>The argument \<open>config\<close> carries the schemas beside the client's options; the model
  passes the schemas on their own and keeps the options as \<open>config\<close>.\<close>

definition read_config :: "string \<Rightarrow> obj \<Rightarrow> obj" where
  "read_config method config =
     (let newConfig = set_prop ''ResponseDataSchema'' JUndefined (spread_into [] (JObj config))
      in set_prop ''method'' (JStr method) (spread_into [] (JObj newConfig)))"

definition write_config :: "string \<Rightarrow> obj \<Rightarrow> jsval \<Rightarrow> obj" where
  "write_config method config validatedData =
     (let newConfig =
            set_prop ''RequestPayloadSchema'' JUndefined
              (set_prop ''ResponseDataSchema'' JUndefined (spread_into [] (JObj config)))
      in set_prop ''method'' (JStr method)
           (set_prop ''data'' validatedData (spread_into [] (JObj newConfig))))"

definition getRequest ::
  "transport \<Rightarrow> obj \<Rightarrow> ZodType \<Rightarrow> world \<Rightarrow> (error + jsval) \<times> world" where
  "getRequest t config ResponseDataSchema w =
     request_validated t ResponseDataSchema (read_config ''get'' config) w"

definition postRequest ::
  "transport \<Rightarrow> obj \<Rightarrow> ZodType \<Rightarrow> ZodType \<Rightarrow> jsval \<Rightarrow> world \<Rightarrow> (error + jsval) \<times> world" where
  "postRequest t config ResponseDataSchema RequestPayloadSchema payload w =
     (case createSchemaValidator RequestPayloadSchema payload of
        Inl e \<Rightarrow> (Inl e, w)
      | Inr validatedData \<Rightarrow>
          request_validated t ResponseDataSchema (write_config ''post'' config validatedData) w)"

definition putRequest ::
  "transport \<Rightarrow> obj \<Rightarrow> ZodType \<Rightarrow> ZodType \<Rightarrow> jsval \<Rightarrow> world \<Rightarrow> (error + jsval) \<times> world" where
  "putRequest t config ResponseDataSchema RequestPayloadSchema payload w =
     (case createSchemaValidator RequestPayloadSchema payload of
        Inl e \<Rightarrow> (Inl e, w)
      | Inr validatedData \<Rightarrow>
          request_validated t ResponseDataSchema (write_config ''put'' config validatedData) w)"

definition patchRequest ::
  "transport \<Rightarrow> obj \<Rightarrow> ZodType \<Rightarrow> ZodType \<Rightarrow> jsval \<Rightarrow> world \<Rightarrow> (error + jsval) \<times> world" where
  "patchRequest t config ResponseDataSchema RequestPayloadSchema payload w =
     (case createSchemaValidator RequestPayloadSchema payload of
        Inl e \<Rightarrow> (Inl e, w)
      | Inr validatedData \<Rightarrow>
          request_validated t ResponseDataSchema (write_config ''patch'' config validatedData) w)"

definition deleteRequest ::
  "transport \<Rightarrow> obj \<Rightarrow> ZodType \<Rightarrow> world \<Rightarrow> (error + jsval) \<times> world" where
  "deleteRequest t config ResponseDataSchema w =
     request_validated t ResponseDataSchema (read_config ''delete'' config) w"

section \<open>The default response transformer\<close>

text \<open>
  \<open>plainResponseTransformer\<close> calls the built-in \<open>JSON.parse\<close>. The model of it
  follows the JSON grammar (ECMA-404): a scanner that reads the text one character at a
  time, and a parser that reads the tokens one at a time with a stack of the open arrays
  and objects. A repeated key of an object keeps its first position and its last value,
  as a property assignment does. Strings are lists of 8-bit characters here, so an escape
  \<open>uXXXX\<close> above 00FF has no image: the model answers \<open>Unmodelled\<close> there, never a value.
\<close>

datatype token = TLBrace | TRBrace | TLBracket | TRBracket | TColon | TComma | TScalar jsval

definition is_digit :: "char \<Rightarrow> bool" where
  "is_digit c = (c \<in> set ''0123456789'')"

definition is_alpha :: "char \<Rightarrow> bool" where
  "is_alpha c = (c \<in> set ''abcdefghijklmnopqrstuvwxyzABCDEFGHIJKLMNOPQRSTUVWXYZ'')"

definition is_ws :: "char \<Rightarrow> bool" where
  "is_ws c = (c \<in> set [CHR '' '', CHR 0x09, CHR 0x0A, CHR 0x0D])"

definition nat_of_digits :: "string \<Rightarrow> nat" where
  "nat_of_digits ds = foldl (\<lambda>n c. 10 * n + (of_char c - 48)) 0 ds"

text \<open>A number: \<open>-? (0 | [1-9][0-9]*) (. [0-9]+)? ([eE] [+-]? [0-9]+)?\<close>\<close>

definition parse_number :: "string \<Rightarrow> rat option" where
  "parse_number s =
     (let neg = (take 1 s = ''-'');
          s1 = (if neg then drop 1 s else s);
          ip = takeWhile is_digit s1;
          s2 = dropWhile is_digit s1;
          has_frac = (take 1 s2 = ''.'');
          fp = (if has_frac then takeWhile is_digit (drop 1 s2) else []);
          s3 = (if has_frac then dropWhile is_digit (drop 1 s2) else s2);
          has_exp = (take 1 s3 = ''e'' \<or> take 1 s3 = ''E'');
          s4 = (if has_exp then drop 1 s3 else s3);
          eneg = (has_exp \<and> take 1 s4 = ''-'');
          s5 = (if has_exp \<and> (take 1 s4 = ''-'' \<or> take 1 s4 = ''+'') then drop 1 s4 else s4);
          ep = (if has_exp then takeWhile is_digit s5 else []);
          s6 = (if has_exp then dropWhile is_digit s5 else s5);
          ok = (ip \<noteq> [] \<and> (length ip = 1 \<or> take 1 ip \<noteq> ''0'')
                \<and> (if has_frac then fp \<noteq> [] else True)
                \<and> (if has_exp then ep \<noteq> [] else True) \<and> s6 = []);
          m = (of_nat (nat_of_digits (ip @ fp)) / 10 ^ length fp :: rat);
          scaled = (if eneg then m / 10 ^ nat_of_digits ep else m * 10 ^ nat_of_digits ep)
      in if ok then Some (if neg then - scaled else scaled) else None)"

text \<open>A maximal run of letters, digits, signs and dots is one of the three literal names
  or a number, or the text is not JSON.\<close>

definition is_word_char :: "char \<Rightarrow> bool" where
  "is_word_char c = (is_digit c \<or> is_alpha c \<or> c \<in> set ''+-.'')"

definition word_token :: "string \<Rightarrow> token option" where
  "word_token w =
     (if w = ''null'' then Some (TScalar JNull)
      else if w = ''true'' then Some (TScalar (JBool True))
      else if w = ''false'' then Some (TScalar (JBool False))
      else map_option (\<lambda>q. TScalar (JNum q)) (parse_number w))"

definition punct :: "char \<Rightarrow> token option" where
  "punct c =
     map_of [(CHR ''{'', TLBrace), (CHR ''}'', TRBrace), (CHR ''['', TLBracket),
             (CHR '']'', TRBracket), (CHR '':'', TColon), (CHR '','', TComma)] c"

text \<open>The character after a backslash, other than \<open>u\<close>.\<close>

definition escape_char :: "char \<Rightarrow> char option" where
  "escape_char c =
     map_of [(CHR 0x22, CHR 0x22), (CHR 0x5C, CHR 0x5C), (CHR ''/'', CHR ''/''),
             (CHR ''b'', CHR 0x08), (CHR ''f'', CHR 0x0C), (CHR ''n'', CHR 0x0A),
             (CHR ''r'', CHR 0x0D), (CHR ''t'', CHR 0x09)] c"

definition is_hex :: "char \<Rightarrow> bool" where
  "is_hex c = (is_digit c \<or> c \<in> set ''abcdefABCDEF'')"

definition hex_digit :: "char \<Rightarrow> nat" where
  "hex_digit c =
     (if is_digit c then of_char c - 48
      else if c \<in> set ''abcdef'' then of_char c - 87
      else of_char c - 55)"

definition hex_value :: "string \<Rightarrow> nat" where
  "hex_value ds = foldl (\<lambda>n c. 16 * n + hex_digit c) 0 ds"

text \<open>The scanner's state: between tokens; inside a word (its characters, last first);
  inside a string (its characters, last first); after a backslash; inside the four
  digits of a \<open>u\<close> escape (the digits read, last first).\<close>

datatype lex_state =
    LIdle
  | LWord string
  | LString string
  | LEscape string
  | LUnicode string string

definition idle_step :: "char \<Rightarrow> token list \<Rightarrow> error + lex_state \<times> token list" where
  "idle_step c ts =
     (if is_ws c then Inr (LIdle, ts)
      else if c = CHR 0x22 then Inr (LString [], ts)
      else (case punct c of
              Some t \<Rightarrow> Inr (LIdle, t # ts)
            | None \<Rightarrow> if is_word_char c then Inr (LWord [c], ts) else Inl SyntaxError))"

fun lex_step :: "lex_state \<Rightarrow> char \<Rightarrow> token list \<Rightarrow> error + lex_state \<times> token list" where
  "lex_step LIdle c ts = idle_step c ts"
| "lex_step (LWord w) c ts =
     (if is_word_char c then Inr (LWord (c # w), ts)
      else (case word_token (rev w) of
              None \<Rightarrow> Inl SyntaxError
            | Some t \<Rightarrow> idle_step c (t # ts)))"
| "lex_step (LString acc) c ts =
     (if c = CHR 0x22 then Inr (LIdle, TScalar (JStr (rev acc)) # ts)
      else if c = CHR 0x5C then Inr (LEscape acc, ts)
      else if (of_char c :: nat) < 32 then Inl SyntaxError
      else Inr (LString (c # acc), ts))"
| "lex_step (LEscape acc) c ts =
     (case escape_char c of
        Some e \<Rightarrow> Inr (LString (e # acc), ts)
      | None \<Rightarrow> if c = CHR ''u'' then Inr (LUnicode acc [], ts) else Inl SyntaxError)"
| "lex_step (LUnicode acc ds) c ts =
     (if \<not> is_hex c then Inl SyntaxError
      else if length ds < 3 then Inr (LUnicode acc (c # ds), ts)
      else if hex_value (rev (c # ds)) < 256
           then Inr (LString (char_of (hex_value (rev (c # ds))) # acc), ts)
      else Inl Unmodelled)"

fun lex_end :: "lex_state \<Rightarrow> token list \<Rightarrow> error + token list" where
  "lex_end LIdle ts = Inr (rev ts)"
| "lex_end (LWord w) ts =
     (case word_token (rev w) of None \<Rightarrow> Inl SyntaxError | Some t \<Rightarrow> Inr (rev (t # ts)))"
| "lex_end _ ts = Inl SyntaxError"

fun lex :: "lex_state \<Rightarrow> token list \<Rightarrow> string \<Rightarrow> error + token list" where
  "lex st ts [] = lex_end st ts"
| "lex st ts (c # cs) =
     (case lex_step st c ts of
        Inl e \<Rightarrow> Inl e
      | Inr (st', ts') \<Rightarrow> lex st' ts' cs)"

text \<open>The parser's stack: an open array with its elements so far (last first), or an
  open object with its members so far and the key whose value is being read.\<close>

datatype frame = FArr "jsval list" | FObj obj string

text \<open>The parser's state: a value must follow; \<open>[\<close> was read (a value or \<open>]\<close> follows);
  \<open>{\<close> was read (a key or \<open>}\<close> follows); a comma was read in an object (a key follows);
  a key was read (a colon follows); a value is complete (a comma or the closing
  bracket of the innermost frame follows, or the end of the text).\<close>

datatype parse_state =
    PValue "frame list"
  | PArrOpen "frame list"
  | PObjOpen "frame list"
  | PKey obj "frame list"
  | PColon obj string "frame list"
  | PDone jsval "frame list"

fun begin_value :: "frame list \<Rightarrow> token \<Rightarrow> parse_state option" where
  "begin_value st (TScalar v) = Some (PDone v st)"
| "begin_value st TLBracket = Some (PArrOpen st)"
| "begin_value st TLBrace = Some (PObjOpen st)"
| "begin_value st _ = None"

fun parse_step :: "parse_state \<Rightarrow> token \<Rightarrow> parse_state option" where
  "parse_step (PValue st) tok = begin_value st tok"
| "parse_step (PArrOpen st) TRBracket = Some (PDone (JArr []) st)"
| "parse_step (PArrOpen st) tok = begin_value (FArr [] # st) tok"
| "parse_step (PObjOpen st) TRBrace = Some (PDone (JObj []) st)"
| "parse_step (PObjOpen st) (TScalar (JStr k)) = Some (PColon [] k st)"
| "parse_step (PKey ms st) (TScalar (JStr k)) = Some (PColon ms k st)"
| "parse_step (PColon ms k st) TColon = Some (PValue (FObj ms k # st))"
| "parse_step (PDone v (FArr acc # st)) TComma = Some (PValue (FArr (v # acc) # st))"
| "parse_step (PDone v (FArr acc # st)) TRBracket = Some (PDone (JArr (rev (v # acc))) st)"
| "parse_step (PDone v (FObj ms k # st)) TComma = Some (PKey (AList.update k v ms) st)"
| "parse_step (PDone v (FObj ms k # st)) TRBrace =
     Some (PDone (JObj (AList.update k v ms)) st)"
| "parse_step _ _ = None"

fun parse_tokens :: "parse_state \<Rightarrow> token list \<Rightarrow> error + jsval" where
  "parse_tokens (PDone v []) [] = Inr v"
| "parse_tokens _ [] = Inl SyntaxError"
| "parse_tokens ps (tok # toks) =
     (case parse_step ps tok of
        None \<Rightarrow> Inl SyntaxError
      | Some ps' \<Rightarrow> parse_tokens ps' toks)"

definition JSON_parse :: "string \<Rightarrow> error + jsval" where
  "JSON_parse s =
     (case lex LIdle [] s of
        Inl e \<Rightarrow> Inl e
      | Inr toks \<Rightarrow> parse_tokens (PValue []) toks)"

definition plainResponseTransformer :: "jsval \<Rightarrow> error + jsval" where
  "plainResponseTransformer d = (case d of JStr s \<Rightarrow> JSON_parse s | _ \<Rightarrow> Inr d)"

section \<open>Observations used by the properties\<close>

text \<open>The header \<open>name\<close> of a request configuration, and the descriptor of the request
  a call issued last.\<close>

definition header :: "obj \<Rightarrow> string \<Rightarrow> jsval" where
  "header conf name = get_prop (get_prop (JObj conf) ''headers'') name"

definition last_sent :: "(error + jsval) \<times> world \<Rightarrow> obj" where
  "last_sent r = last (sent (snd r))"

text \<open>\<open>typeof v === "string"\<close>\<close>

definition is_string :: "jsval \<Rightarrow> bool" where
  "is_string v = (case v of JStr s \<Rightarrow> True | _ \<Rightarrow> False)"

text \<open>\<open>decode(decode(x))\<close>: the transformer applied to its own result.\<close>

definition decode_twice :: "jsval \<Rightarrow> error + jsval" where
  "decode_twice x =
     (case plainResponseTransformer x of
        Inl e \<Rightarrow> Inl e
      | Inr y \<Rightarrow> plainResponseTransformer y)"

text \<open>The specification's reading of a resolved URL, in its own words: the root and the
  path with exactly one \<open>/\<close> between them, whatever slashes the root ends with and the
  path begins with.\<close>

definition one_slash_between :: "string \<Rightarrow> string \<Rightarrow> string \<Rightarrow> bool" where
  "one_slash_between base p url =
     (url = rev (dropWhile (\<lambda>c. c = CHR ''/'') (rev base)) @ ''/'' @
            dropWhile (\<lambda>c. c = CHR ''/'') p)"

text \<open>Two schemas, for concrete runs: one that accepts strings only and reports one
  issue otherwise, and one that accepts every datum as it is.\<close>

definition string_schema :: ZodType where
  "string_schema d =
     (case d of
        JStr s \<Rightarrow> SafeParseSuccess d
      | _ \<Rightarrow> SafeParseError [ZodIssue [] ''Expected string''])"

definition any_schema :: ZodType where
  "any_schema d = SafeParseSuccess d"



text \<open>A process-wide configuration with the given root and request transformers, and a
  world in which nothing has been sent or logged.\<close>

definition config_of :: "string \<Rightarrow> jsfun list option \<Rightarrow> ApiConfig" where
  "config_of base transformers =
     \<lparr>rootPath = base, preProcessingCallback = None, postProcessingCallback = None,
      apiErrorHandler = None, additionalHeader = None, transformRequest = transformers,
      transformResponse = None\<rparr>"

definition world0 :: world where
  "world0 = \<lparr>sent = [], console = []\<rparr>"

section \<open>Objects: reading, writing and copying properties\<close>

lemma get_prop_set_prop_same: "get_prop (JObj (set_prop k v ob)) k = v"
  by (simp add: get_prop_def set_prop_def update_conv')

lemma get_prop_set_prop_other:
  "k \<noteq> k' \<Longrightarrow> get_prop (JObj (set_prop k' v ob)) k = get_prop (JObj ob) k"
  by (simp add: get_prop_def set_prop_def update_conv')

lemma update_fresh: "k \<notin> fst ` set al \<Longrightarrow> AList.update k v al = al @ [(k, v)]"
  by (induction al) auto

text \<open>Copying an object whose keys are distinct yields the same properties in the same
  order.\<close>

lemma fold_update_distinct:
  "distinct (map fst kvs) \<Longrightarrow> fold (\<lambda>(k, x). AList.update k x) kvs [] = kvs"
proof (induction kvs rule: rev_induct)
  case Nil
  then show ?case by simp
next
  case (snoc p ps)
  obtain k v where p: "p = (k, v)" by (cases p)
  from snoc.prems have d: "distinct (map fst ps)" and fresh: "k \<notin> fst ` set ps"
    by (auto simp: p)
  from snoc.IH [OF d] show ?case
    by (simp add: p update_fresh [OF fresh])
qed

lemma distinct_fold_update:
  "distinct (map fst ob) \<Longrightarrow> distinct (map fst (fold (\<lambda>(k, x). AList.update k x) ps ob))"
  by (induction ps arbitrary: ob) (auto simp: distinct_update)

lemma distinct_spread_into: "distinct (map fst ob) \<Longrightarrow> distinct (map fst (spread_into ob v))"
  by (simp add: spread_into_def distinct_fold_update)

lemma distinct_set_prop: "distinct (map fst ob) \<Longrightarrow> distinct (map fst (set_prop k v ob))"
  by (simp add: set_prop_def distinct_update)

lemma spread_copy: "distinct (map fst ob) \<Longrightarrow> spread_into [] (JObj ob) = ob"
  by (simp add: spread_into_def fold_update_distinct)

lemma distinct_spread_empty: "distinct (map fst (spread_into [] v))"
  by (simp add: distinct_spread_into)

lemma header_set_prop_other:
  "k \<noteq> ''headers'' \<Longrightarrow> header (set_prop k v ob) name = header ob name"
  by (simp add: header_def get_prop_set_prop_other)

section \<open>What a call hands to the HTTP client\<close>

lemma sent_unwrap_response: "sent (snd (unwrap_response r)) = sent (snd r)"
  by (auto simp: unwrap_response_def responseHandler_def split: prod.splits sum.splits)

lemma last_sent_axios_request: "last_sent (axios_request t req w) = req"
  by (simp add: last_sent_def axios_request_def)

lemma last_sent_unwrap: "last_sent (unwrap_response r) = last_sent r"
  by (simp add: last_sent_def sent_unwrap_response)

lemma last_sent_axios_get:
  "last_sent (axios_get t url config w) =
     set_prop ''url'' (JStr url) (set_prop ''method'' (JStr ''get'') config)"
  by (simp add: axios_get_def last_sent_axios_request)

lemma last_sent_axios_delete:
  "last_sent (axios_delete t url config w) =
     set_prop ''url'' (JStr url) (set_prop ''method'' (JStr ''delete'') config)"
  by (simp add: axios_delete_def last_sent_axios_request)

lemma last_sent_axios_post:
  "last_sent (axios_post t url payload config w) =
     set_prop ''data'' payload
       (set_prop ''url'' (JStr url) (set_prop ''method'' (JStr ''post'') config))"
  by (simp add: axios_post_def last_sent_axios_request)

lemma last_sent_axios_put:
  "last_sent (axios_put t url payload config w) =
     set_prop ''data'' payload
       (set_prop ''url'' (JStr url) (set_prop ''method'' (JStr ''put'') config))"
  by (simp add: axios_put_def last_sent_axios_request)

lemmas last_sent_simps =
  last_sent_unwrap last_sent_axios_get last_sent_axios_delete last_sent_axios_post
  last_sent_axios_put

lemma sent_axios_post:
  "sent (snd (axios_post t url payload config w)) =
     sent w @ [set_prop ''data'' payload
                 (set_prop ''url'' (JStr url) (set_prop ''method'' (JStr ''post'') config))]"
  by (simp add: axios_post_def axios_request_def)

lemma request_validated_ok:
  "t req = Inr body \<Longrightarrow> schema body = SafeParseSuccess out \<Longrightarrow>
     request_validated t schema req w = (Inr out, w\<lparr>sent := sent w @ [req]\<rparr>)"
  by (simp add: request_validated_def axios_request_def createSchemaValidator_def)

lemma sent_request_validated:
  "sent (snd (request_validated t schema req w)) = sent w @ [req]"
  by (simp add: request_validated_def axios_request_def split: sum.splits)

section \<open>The resolved configuration\<close>

lemma non_empty_iff: "non_empty xs = (\<exists>l. xs = Some l \<and> l \<noteq> [])"
  by (cases xs) (auto simp: non_empty_def)

lemma header_addGlobalConfig:
  "header (addGlobalConfig cfg config) ''X-ENCRYPTED'' =
     JStr (if non_empty (transformRequest cfg) then ''yes'' else ''no'')"
  by (simp add: header_def addGlobalConfig_def Let_def get_prop_set_prop_same
      get_prop_set_prop_other)

lemma header_postTransformed_config:
  "header (postTransformed_config f g config) ''X-ENCRYPTED'' = JStr ''yes''"
  by (simp add: header_def postTransformed_config_def Let_def get_prop_set_prop_same
      get_prop_set_prop_other spread_copy distinct_set_prop distinct_spread_empty)

lemma credentials_addGlobalConfig:
  "get_prop (JObj (addGlobalConfig cfg config)) ''withCredentials'' = JBool True"
  by (simp add: addGlobalConfig_def Let_def get_prop_set_prop_same)

lemma credentials_postTransformed_config:
  "get_prop (JObj (postTransformed_config f g config)) ''withCredentials'' = JBool True"
  by (simp add: postTransformed_config_def Let_def get_prop_set_prop_same)

text \<open>The process-wide \<open>additionalHeader\<close> is never read: the resolved configuration is
  the same whatever it holds.\<close>

lemma addGlobalConfig_ignores_additionalHeader:
  "addGlobalConfig (cfg\<lparr>additionalHeader := h\<rparr>) config = addGlobalConfig cfg config"
  by (simp add: addGlobalConfig_def)

section \<open>Envelope unwrapping\<close>

text \<open>
  Claim C1. For every response envelope, \<open>responseHandler\<close> does one of three things.
  If the code is exactly 500 it logs one line, the code and the message, and fails with
  the protocol error that carries the code and the message. Otherwise, if the code is
  present (not \<open>undefined\<close>) and not exactly 200, it fails with the same kind of error and
  logs nothing. Otherwise it logs nothing and returns the data if the data is present,
  and the boolean \<open>true\<close> if it is not; the data counts as present when it is neither
  \<open>undefined\<close> nor \<open>null\<close>, which is what the operator \<open>??\<close> tests.
\<close>

theorem responseHandler_policy:
  "(code e = JNum 500 \<longrightarrow>
      responseHandler e w =
        (Inl (ProtocolError (JNum 500) (message e)),
         w\<lparr>console := console w @ [[JNum 500, message e]]\<rparr>))
   \<and> (code e \<noteq> JNum 500 \<and> code e \<noteq> JUndefined \<and> code e \<noteq> JNum 200 \<longrightarrow>
      responseHandler e w = (Inl (ProtocolError (code e) (message e)), w))
   \<and> ((code e = JUndefined \<or> code e = JNum 200) \<and> data e \<noteq> JUndefined \<and> data e \<noteq> JNull \<longrightarrow>
      responseHandler e w = (Inr (data e), w))
   \<and> ((code e = JUndefined \<or> code e = JNum 200) \<and> (data e = JUndefined \<or> data e = JNull) \<longrightarrow>
      responseHandler e w = (Inr (JBool True), w))"
  by (auto simp: responseHandler_def js_coalesce_def nullish_def)

text \<open>The four envelopes of the specification: \<open>{code: 200, data: {x: 1}}\<close>,
  \<open>{code: 200}\<close>, \<open>{code: 404, message: "nf"}\<close> and \<open>{code: 500, message: "boom"}\<close>.\<close>

theorem responseHandler_policy_witness:
  "responseHandler \<lparr>code = JNum 200, data = JObj [(''x'', JNum 1)], message = JUndefined,
                     timestamp = JUndefined\<rparr> world0
     = (Inr (JObj [(''x'', JNum 1)]), world0)
   \<and> responseHandler \<lparr>code = JNum 200, data = JUndefined, message = JUndefined,
                       timestamp = JUndefined\<rparr> world0
     = (Inr (JBool True), world0)
   \<and> responseHandler \<lparr>code = JNum 404, data = JUndefined, message = JStr ''nf'',
                       timestamp = JUndefined\<rparr> world0
     = (Inl (ProtocolError (JNum 404) (JStr ''nf'')), world0)
   \<and> responseHandler \<lparr>code = JNum 500, data = JUndefined, message = JStr ''boom'',
                       timestamp = JUndefined\<rparr> world0
     = (Inl (ProtocolError (JNum 500) (JStr ''boom'')),
        world0\<lparr>console := [[JNum 500, JStr ''boom'']]\<rparr>)"
  using
    responseHandler_policy
      [of "\<lparr>code = JNum 200, data = JObj [(''x'', JNum 1)], message = JUndefined,
            timestamp = JUndefined\<rparr>" world0]
    responseHandler_policy
      [of "\<lparr>code = JNum 200, data = JUndefined, message = JUndefined,
            timestamp = JUndefined\<rparr>" world0]
    responseHandler_policy
      [of "\<lparr>code = JNum 404, data = JUndefined, message = JStr ''nf'',
            timestamp = JUndefined\<rparr>" world0]
    responseHandler_policy
      [of "\<lparr>code = JNum 500, data = JUndefined, message = JStr ''boom'',
            timestamp = JUndefined\<rparr>" world0]
  by (simp add: world0_def)

section \<open>The encryption marker\<close>

text \<open>
  Claim C2. For every process-wide configuration and every per-call configuration, the
  headers \<open>addGlobalConfig\<close> resolves carry \<open>X-ENCRYPTED\<close>, set to \<open>"yes"\<close> exactly when
  the process-wide list of request transformers is present and not empty and to \<open>"no"\<close>
  otherwise, whatever the caller's own headers say; every wrapper that resolves its
  configuration this way hands that header to the client. \<open>postTransformed\<close> always
  sends \<open>"yes"\<close>, whatever the process-wide configuration.
\<close>

theorem X_ENCRYPTED_marker:
  "header (addGlobalConfig cfg config) ''X-ENCRYPTED'' =
     JStr (if \<exists>l. transformRequest cfg = Some l \<and> l \<noteq> [] then ''yes'' else ''no'')
   \<and> header (last_sent (API_get t cfg apiPath config w)) ''X-ENCRYPTED'' =
       header (addGlobalConfig cfg config) ''X-ENCRYPTED''
   \<and> header (last_sent (API_post t cfg apiPath payload config w)) ''X-ENCRYPTED'' =
       header (addGlobalConfig cfg config) ''X-ENCRYPTED''
   \<and> header (last_sent (API_postRaw t cfg apiPath payload config w)) ''X-ENCRYPTED'' =
       header (addGlobalConfig cfg config) ''X-ENCRYPTED''
   \<and> header (last_sent (API_patch t cfg apiPath payload config w)) ''X-ENCRYPTED'' =
       header (addGlobalConfig cfg config) ''X-ENCRYPTED''
   \<and> header (last_sent (API_put t cfg apiPath payload config w)) ''X-ENCRYPTED'' =
       header (addGlobalConfig cfg config) ''X-ENCRYPTED''
   \<and> header (last_sent (API_delete t cfg apiPath config w)) ''X-ENCRYPTED'' =
       header (addGlobalConfig cfg config) ''X-ENCRYPTED''
   \<and> header (postTransformed_config f g config) ''X-ENCRYPTED'' = JStr ''yes''
   \<and> header (last_sent (API_postTransformed t cfg apiPath payload f g config w)) ''X-ENCRYPTED'' =
       JStr ''yes''"
  by (simp add: header_addGlobalConfig header_postTransformed_config non_empty_iff
      API_get_def API_post_def API_postRaw_def API_patch_def API_put_def API_delete_def
      API_postTransformed_def last_sent_simps header_set_prop_other)

text \<open>With one process-wide transformer the marker is \<open>"yes"\<close> even though the caller
  sets it to \<open>"no"\<close>; with none, and with an empty list, it is \<open>"no"\<close> even though the
  caller sets it to \<open>"yes"\<close>; \<open>postTransformed\<close> sends \<open>"yes"\<close> with none.\<close>

theorem X_ENCRYPTED_marker_witness:
  "header (addGlobalConfig (config_of ''https://svc'' (Some [UserFn 0]))
            (JObj [(''headers'', JObj [(''X-ENCRYPTED'', JStr ''no'')])])) ''X-ENCRYPTED''
     = JStr ''yes''
   \<and> header (addGlobalConfig (config_of ''https://svc'' None)
              (JObj [(''headers'', JObj [(''X-ENCRYPTED'', JStr ''yes'')])])) ''X-ENCRYPTED''
       = JStr ''no''
   \<and> header (addGlobalConfig (config_of ''https://svc'' (Some []))
              (JObj [(''headers'', JObj [(''X-ENCRYPTED'', JStr ''yes'')])])) ''X-ENCRYPTED''
       = JStr ''no''
   \<and> header (last_sent (API_postTransformed (\<lambda>req. Inr JNull) (config_of ''https://svc'' None)
                ''/a'' JNull None None JUndefined world0)) ''X-ENCRYPTED''
       = JStr ''yes''"
  using
    X_ENCRYPTED_marker
      [of "config_of ''https://svc'' (Some [UserFn 0])"
          "JObj [(''headers'', JObj [(''X-ENCRYPTED'', JStr ''no'')])]"]
    X_ENCRYPTED_marker
      [of "config_of ''https://svc'' None"
          "JObj [(''headers'', JObj [(''X-ENCRYPTED'', JStr ''yes'')])]"]
    X_ENCRYPTED_marker
      [of "config_of ''https://svc'' (Some [])"
          "JObj [(''headers'', JObj [(''X-ENCRYPTED'', JStr ''yes'')])]"]
    X_ENCRYPTED_marker
      [of "config_of ''https://svc'' None" JUndefined "\<lambda>req. Inr JNull" "''/a''" world0 JNull
          None None]
  by (simp add: config_of_def)

section \<open>Schema validation\<close>




section \<open>URL resolution\<close>

lemma dropWhile_rev_no_trailing:
  "\<not> (base \<noteq> [] \<and> last base = c) \<Longrightarrow> rev (dropWhile (\<lambda>x. x = c) (rev base)) = base"
  by (cases base rule: rev_cases) auto

lemma dropWhile_one_leading:
  "take 2 p \<noteq> [c, c] \<Longrightarrow>
     dropWhile (\<lambda>x. x = c) p = (if take 1 p = [c] then drop 1 p else p)"
  by (cases p; cases "tl p") auto

text \<open>
  Claim C4, as stated: for every root path and every path, \<open>getUrl\<close> joins the two with
  exactly one \<open>/\<close> between them. It fails for a root path that ends in a slash: the root
  \<open>https://api.x/\<close> and the path \<open>a\<close> resolve to \<open>https://api.x//a\<close>, with two slashes
  between the root and the path. So do the root \<open>https://api.x\<close> and the path \<open>//a\<close>.
\<close>

theorem getUrl_trailing_slash_counterexample:
  "getUrl (config_of ''https://api.x/'' None) ''a'' = ''https://api.x//a''
   \<and> \<not> one_slash_between ''https://api.x/'' ''a''
         (getUrl (config_of ''https://api.x/'' None) ''a'')
   \<and> getUrl (config_of ''https://api.x'' None) ''//a'' = ''https://api.x//a''
   \<and> \<not> one_slash_between ''https://api.x'' ''//a''
         (getUrl (config_of ''https://api.x'' None) ''//a'')"
  by (simp add: getUrl_def config_of_def one_slash_between_def)

text \<open>
  Claim C4, amended. \<open>getUrl\<close> only looks at the first character of the path: the result
  is the root path as configured, one \<open>/\<close>, and the path without its first character if
  that is a slash. So a path gives the same URL with and without one leading slash, and
  exactly one \<open>/\<close> stands between root and path whenever the root path does not end in a
  slash and the path does not begin with two.
\<close>

theorem getUrl_one_slash:
  "getUrl cfg p = rootPath cfg @ ''/'' @ (if take 1 p = ''/'' then drop 1 p else p)
   \<and> (\<not> (rootPath cfg \<noteq> [] \<and> last (rootPath cfg) = CHR ''/'') \<and> take 2 p \<noteq> ''//'' \<longrightarrow>
        one_slash_between (rootPath cfg) p (getUrl cfg p))"
proof -
  have eq: "getUrl cfg p = rootPath cfg @ ''/'' @ (if take 1 p = ''/'' then drop 1 p else p)"
    by (cases p) (auto simp: getUrl_def)
  show ?thesis
    by (simp add: eq one_slash_between_def dropWhile_rev_no_trailing dropWhile_one_leading)
qed

text \<open>The specification's example: the root \<open>https://api.x\<close> with the paths \<open>/a\<close> and
  \<open>a\<close>.\<close>

theorem getUrl_one_slash_witness:
  "getUrl (config_of ''https://api.x'' None) ''/a'' = ''https://api.x/a''
   \<and> getUrl (config_of ''https://api.x'' None) ''a'' = ''https://api.x/a''
   \<and> one_slash_between ''https://api.x'' ''/a'' (getUrl (config_of ''https://api.x'' None) ''/a'')
   \<and> one_slash_between ''https://api.x'' ''a'' (getUrl (config_of ''https://api.x'' None) ''a'')"
proof -
  have r: "rootPath (config_of ''https://api.x'' None) = ''https://api.x''"
    by (simp add: config_of_def)
  note slashed = getUrl_one_slash [of "config_of ''https://api.x'' None" "''/a''"]
  note bare = getUrl_one_slash [of "config_of ''https://api.x'' None" "''a''"]
  from slashed have s1: "getUrl (config_of ''https://api.x'' None) ''/a'' = ''https://api.x/a''"
    by (simp add: r)
  from slashed [THEN conjunct2] have s2:
    "one_slash_between ''https://api.x'' ''/a'' (getUrl (config_of ''https://api.x'' None) ''/a'')"
    by (simp add: r)
  from bare have b1: "getUrl (config_of ''https://api.x'' None) ''a'' = ''https://api.x/a''"
    by (simp add: r)
  from bare [THEN conjunct2] have b2:
    "one_slash_between ''https://api.x'' ''a'' (getUrl (config_of ''https://api.x'' None) ''a'')"
    by (simp add: r)
  from s1 s2 b1 b2 show ?thesis by blast
qed

section \<open>Process-wide additional headers\<close>

text \<open>
  Claim C5 says that every entry of the process-wide \<open>additionalHeader\<close> is among the
  outbound headers. The code declares the option and never reads it. With
  \<open>additionalHeader = {"X-APP": "1"}\<close> configured and no per-call configuration, the
  resolved configuration is \<open>{headers: {"X-ENCRYPTED": "no"}, withCredentials: true}\<close>:
  the header \<open>X-APP\<close> is not sent.
\<close>

theorem additionalHeader_not_sent:
  "addGlobalConfig
     ((config_of ''https://api.x'' None)\<lparr>additionalHeader := Some [(''X-APP'', ''1'')]\<rparr>)
     JUndefined
     = [(''headers'', JObj [(''X-ENCRYPTED'', JStr ''no'')]), (''withCredentials'', JBool True)]
   \<and> header
        (addGlobalConfig
          ((config_of ''https://api.x'' None)\<lparr>additionalHeader := Some [(''X-APP'', ''1'')]\<rparr>)
          JUndefined) ''X-APP''
       = JUndefined"
  by (simp add: addGlobalConfig_def config_of_def header_def Let_def transformer_entry_def
      spread_into_def set_prop_def non_empty_def js_or_def opt_prop_def nullish_def truthy_def
      get_prop_def)

section \<open>Validation before the request leaves\<close>

text \<open>
  Claim C6. In the schema-validated design the payload is validated before anything is
  handed to the client: whenever the payload fails the request schema, \<open>postRequest\<close>,
  \<open>putRequest\<close> and \<open>patchRequest\<close> fail with the validation error of that schema and
  leave the world as it was, so no request has been issued.
\<close>

theorem invalid_payload_not_sent:
  "RequestPayloadSchema payload = SafeParseError issues \<Longrightarrow>
     postRequest t config ResponseDataSchema RequestPayloadSchema payload w
       = (Inl (ZodError issues), w)
     \<and> putRequest t config ResponseDataSchema RequestPayloadSchema payload w
         = (Inl (ZodError issues), w)
     \<and> patchRequest t config ResponseDataSchema RequestPayloadSchema payload w
         = (Inl (ZodError issues), w)"
  by (simp add: postRequest_def putRequest_def patchRequest_def createSchemaValidator_def)

theorem invalid_payload_not_sent_witness:
  "string_schema (JNum 1) = SafeParseError [ZodIssue [] ''Expected string'']
   \<and> postRequest (\<lambda>req. Inr JNull) [] any_schema string_schema (JNum 1) world0
       = (Inl (ZodError [ZodIssue [] ''Expected string'']), world0)
   \<and> putRequest (\<lambda>req. Inr JNull) [] any_schema string_schema (JNum 1) world0
       = (Inl (ZodError [ZodIssue [] ''Expected string'']), world0)
   \<and> patchRequest (\<lambda>req. Inr JNull) [] any_schema string_schema (JNum 1) world0
       = (Inl (ZodError [ZodIssue [] ''Expected string'']), world0)
   \<and> sent world0 = []"
proof -
  have h: "string_schema (JNum 1) = SafeParseError [ZodIssue [] ''Expected string'']"
    by (simp add: string_schema_def)
  from invalid_payload_not_sent
         [where RequestPayloadSchema = string_schema and payload = "JNum 1", OF h,
          of "\<lambda>req. Inr JNull" "[]" any_schema world0] h
  show ?thesis by (simp add: world0_def)
qed

section \<open>PATCH in the two designs\<close>

text \<open>
  Claim C7. In the plain design \<open>API.patch\<close> is \<open>API.post\<close>: for every client, path,
  payload and per-call configuration the two give the same result and leave the same
  world, and the one request \<open>API.patch\<close> issues has the method \<open>post\<close>. In the
  schema-validated design, \<open>patchRequest\<close> with a payload that passes its schema issues
  one request, with the method \<open>patch\<close>.
\<close>

theorem patch_issues_post:
  "API_patch t cfg apiPath payload config w = API_post t cfg apiPath payload config w
   \<and> sent (snd (API_patch t cfg apiPath payload config w)) =
       sent w @ [set_prop ''data'' payload
                   (set_prop ''url'' (JStr (getUrl cfg apiPath))
                     (set_prop ''method'' (JStr ''post'') (addGlobalConfig cfg config)))]
   \<and> get_prop (JObj (last_sent (API_patch t cfg apiPath payload config w))) ''method''
       = JStr ''post''
   \<and> (RequestPayloadSchema payload = SafeParseSuccess v \<longrightarrow>
        sent (snd (patchRequest t conf ResponseDataSchema RequestPayloadSchema payload w)) =
          sent w @ [write_config ''patch'' conf v]
        \<and> get_prop (JObj (write_config ''patch'' conf v)) ''method'' = JStr ''patch'')"
  by (simp add: API_patch_def API_post_def sent_unwrap_response sent_axios_post last_sent_simps
      get_prop_set_prop_same get_prop_set_prop_other patchRequest_def createSchemaValidator_def
      sent_request_validated write_config_def Let_def)

theorem patch_issues_post_witness:
  "any_schema (JObj [(''name'', JStr ''a'')]) = SafeParseSuccess (JObj [(''name'', JStr ''a'')])
   \<and> sent (snd (patchRequest (\<lambda>req. Inr JNull) [(''url'', JStr ''/items/1'')] any_schema
                  any_schema (JObj [(''name'', JStr ''a'')]) world0)) =
       [write_config ''patch'' [(''url'', JStr ''/items/1'')] (JObj [(''name'', JStr ''a'')])]
   \<and> get_prop (JObj (write_config ''patch'' [(''url'', JStr ''/items/1'')]
                       (JObj [(''name'', JStr ''a'')]))) ''method'' = JStr ''patch''
   \<and> get_prop (JObj (last_sent (API_patch (\<lambda>req. Inr JNull) (config_of ''https://svc'' None)
                       ''/items/1'' (JObj [(''name'', JStr ''a'')]) JUndefined world0))) ''method''
       = JStr ''post''"
proof -
  note th = patch_issues_post
    [of "\<lambda>req. Inr JNull" "config_of ''https://svc'' None" "''/items/1''"
        "JObj [(''name'', JStr ''a'')]" JUndefined world0 any_schema
        "JObj [(''name'', JStr ''a'')]" "[(''url'', JStr ''/items/1'')]" any_schema]
  have ok:
    "any_schema (JObj [(''name'', JStr ''a'')]) = SafeParseSuccess (JObj [(''name'', JStr ''a'')])"
    by (simp add: any_schema_def)
  have s0: "sent world0 = []"
    by (simp add: world0_def)
  from th ok have validated:
    "sent (snd (patchRequest (\<lambda>req. Inr JNull) [(''url'', JStr ''/items/1'')] any_schema
                  any_schema (JObj [(''name'', JStr ''a'')]) world0)) =
       sent world0 @
         [write_config ''patch'' [(''url'', JStr ''/items/1'')] (JObj [(''name'', JStr ''a'')])]"
    by blast
  from th ok have method_patch:
    "get_prop (JObj (write_config ''patch'' [(''url'', JStr ''/items/1'')]
                       (JObj [(''name'', JStr ''a'')]))) ''method'' = JStr ''patch''"
    by blast
  from th have method_post:
    "get_prop (JObj (last_sent (API_patch (\<lambda>req. Inr JNull) (config_of ''https://svc'' None)
                       ''/items/1'' (JObj [(''name'', JStr ''a'')]) JUndefined world0))) ''method''
       = JStr ''post''"
    by blast
  from ok validated method_patch method_post show ?thesis
    by (simp add: s0)
qed

section \<open>Decoding twice\<close>

text \<open>
  Claim C8, as stated: decoding is idempotent for every wire payload. It fails for a
  text that parses to a string. The three characters \<open>"1"\<close> decode to the string \<open>1\<close>,
  and decoding that string gives the number 1; the three characters \<open>"a"\<close> decode to
  the string \<open>a\<close>, and decoding that string throws.
\<close>

theorem decode_not_idempotent:
  "plainResponseTransformer (JStr ''\"1\"'') = Inr (JStr ''1'')
   \<and> decode_twice (JStr ''\"1\"'') = Inr (JNum 1)
   \<and> decode_twice (JStr ''\"1\"'') \<noteq> plainResponseTransformer (JStr ''\"1\"'')
   \<and> plainResponseTransformer (JStr ''\"a\"'') = Inr (JStr ''a'')
   \<and> decode_twice (JStr ''\"a\"'') = Inl SyntaxError"
  by code_simp

text \<open>
  Claim C8, amended. The transformer parses only a string and returns every other
  payload unchanged, so decoding is idempotent on every payload that is not a string,
  and on every string whose decoding is not a string again.
\<close>

theorem decode_idempotent_on_structured:
  "(\<not> is_string d \<longrightarrow>
      plainResponseTransformer d = Inr d \<and> decode_twice d = plainResponseTransformer d)
   \<and> (plainResponseTransformer x = Inr y \<and> \<not> is_string y \<longrightarrow>
        decode_twice x = plainResponseTransformer x)
   \<and> (is_string x \<longrightarrow> (\<exists>s. x = JStr s \<and> plainResponseTransformer x = JSON_parse s))"
  by (cases d; cases y; cases x)
     (simp_all add: is_string_def plainResponseTransformer_def decode_twice_def)

theorem decode_idempotent_on_structured_witness:
  "plainResponseTransformer (JObj [(''x'', JNum 1)]) = Inr (JObj [(''x'', JNum 1)])
   \<and> decode_twice (JObj [(''x'', JNum 1)]) = Inr (JObj [(''x'', JNum 1)])
   \<and> plainResponseTransformer (JStr ''{\"x\":1}'') = Inr (JObj [(''x'', JNum 1)])
   \<and> decode_twice (JStr ''{\"x\":1}'') = Inr (JObj [(''x'', JNum 1)])"
proof -
  have parsed: "plainResponseTransformer (JStr ''{\"x\":1}'') = Inr (JObj [(''x'', JNum 1)])"
    by code_simp
  from decode_idempotent_on_structured
         [of "JObj [(''x'', JNum 1)]" "JStr ''{\"x\":1}''" "JObj [(''x'', JNum 1)]"] parsed
  show ?thesis by (simp add: is_string_def)
qed

section \<open>Credentials\<close>

text \<open>
  Claim C9. Every request carries credentials and no call can switch that off: for every
  per-call configuration, also one that sets \<open>withCredentials\<close> to \<open>false\<close>, the
  configuration \<open>addGlobalConfig\<close> resolves and the one \<open>postTransformed\<close> builds have
  \<open>withCredentials\<close> \<open>true\<close>, and so has the request every wrapper hands to the client.
\<close>

theorem withCredentials_forced:
  "get_prop (JObj (addGlobalConfig cfg config)) ''withCredentials'' = JBool True
   \<and> get_prop (JObj (postTransformed_config f g config)) ''withCredentials'' = JBool True
   \<and> get_prop (JObj (last_sent (API_get t cfg apiPath config w))) ''withCredentials''
       = JBool True
   \<and> get_prop (JObj (last_sent (API_post t cfg apiPath payload config w))) ''withCredentials''
       = JBool True
   \<and> get_prop (JObj (last_sent (API_postRaw t cfg apiPath payload config w))) ''withCredentials''
       = JBool True
   \<and> get_prop (JObj (last_sent (API_patch t cfg apiPath payload config w))) ''withCredentials''
       = JBool True
   \<and> get_prop (JObj (last_sent (API_put t cfg apiPath payload config w))) ''withCredentials''
       = JBool True
   \<and> get_prop (JObj (last_sent (API_delete t cfg apiPath config w))) ''withCredentials''
       = JBool True
   \<and> get_prop (JObj (last_sent (API_postTransformed t cfg apiPath payload f g config w)))
        ''withCredentials'' = JBool True"
  by (simp add: credentials_addGlobalConfig credentials_postTransformed_config
      API_get_def API_post_def API_postRaw_def API_patch_def API_put_def API_delete_def
      API_postTransformed_def last_sent_simps get_prop_set_prop_other)

text \<open>A caller that asks for \<open>withCredentials: false\<close> gets \<open>true\<close> all the same.\<close>

theorem withCredentials_forced_witness:
  "get_prop (JObj (addGlobalConfig (config_of ''https://svc'' None)
                     (JObj [(''withCredentials'', JBool False)]))) ''withCredentials''
     = JBool True
   \<and> get_prop (JObj (postTransformed_config None None (JObj [(''withCredentials'', JBool False)])))
        ''withCredentials''
       = JBool True"
  using withCredentials_forced
          [of "config_of ''https://svc'' None" "JObj [(''withCredentials'', JBool False)]" None None]
  by simp

section \<open>The schema-validated design and the envelope\<close>

text \<open>
  Claim C10. The schema-validated wrappers never look at the envelope's code: whenever
  the client answers with a body that passes the response schema (and, for a write, the
  payload passes the request schema), \<open>getRequest\<close>, \<open>postRequest\<close>, \<open>putRequest\<close>,
  \<open>patchRequest\<close> and \<open>deleteRequest\<close> return the parsed body as a success after issuing
  one request, whatever code the body holds. Unwrapping the envelope, with its protocol
  error, belongs to the plain design only.
\<close>

theorem validated_design_ignores_envelope_code:
  "(t (read_config ''get'' conf) = Inr body \<and> ResponseDataSchema body = SafeParseSuccess out \<longrightarrow>
      getRequest t conf ResponseDataSchema w =
        (Inr out, w\<lparr>sent := sent w @ [read_config ''get'' conf]\<rparr>))
   \<and> (t (read_config ''delete'' conf) = Inr body
       \<and> ResponseDataSchema body = SafeParseSuccess out \<longrightarrow>
      deleteRequest t conf ResponseDataSchema w =
        (Inr out, w\<lparr>sent := sent w @ [read_config ''delete'' conf]\<rparr>))
   \<and> (RequestPayloadSchema payload = SafeParseSuccess v
       \<and> t (write_config ''post'' conf v) = Inr body
       \<and> ResponseDataSchema body = SafeParseSuccess out \<longrightarrow>
      postRequest t conf ResponseDataSchema RequestPayloadSchema payload w =
        (Inr out, w\<lparr>sent := sent w @ [write_config ''post'' conf v]\<rparr>))
   \<and> (RequestPayloadSchema payload = SafeParseSuccess v
       \<and> t (write_config ''put'' conf v) = Inr body
       \<and> ResponseDataSchema body = SafeParseSuccess out \<longrightarrow>
      putRequest t conf ResponseDataSchema RequestPayloadSchema payload w =
        (Inr out, w\<lparr>sent := sent w @ [write_config ''put'' conf v]\<rparr>))
   \<and> (RequestPayloadSchema payload = SafeParseSuccess v
       \<and> t (write_config ''patch'' conf v) = Inr body
       \<and> ResponseDataSchema body = SafeParseSuccess out \<longrightarrow>
      patchRequest t conf ResponseDataSchema RequestPayloadSchema payload w =
        (Inr out, w\<lparr>sent := sent w @ [write_config ''patch'' conf v]\<rparr>))"
  by (simp add: getRequest_def deleteRequest_def postRequest_def putRequest_def patchRequest_def
      createSchemaValidator_def request_validated_ok)

text \<open>A server that answers every request with \<open>{code: 500, message: "boom"}\<close>, and a
  response schema that accepts every body: the five validated wrappers succeed with that
  body, where \<open>API.get\<close> of the plain design fails with the protocol error.\<close>

theorem validated_design_ignores_envelope_code_witness:
  "fst (getRequest (\<lambda>req. Inr (JObj [(''code'', JNum 500), (''message'', JStr ''boom'')]))
          [(''url'', JStr ''/items/1'')] any_schema world0)
     = Inr (JObj [(''code'', JNum 500), (''message'', JStr ''boom'')])
   \<and> fst (deleteRequest (\<lambda>req. Inr (JObj [(''code'', JNum 500), (''message'', JStr ''boom'')]))
          [(''url'', JStr ''/items/1'')] any_schema world0)
     = Inr (JObj [(''code'', JNum 500), (''message'', JStr ''boom'')])
   \<and> fst (postRequest (\<lambda>req. Inr (JObj [(''code'', JNum 500), (''message'', JStr ''boom'')]))
          [(''url'', JStr ''/items/1'')] any_schema any_schema JNull world0)
     = Inr (JObj [(''code'', JNum 500), (''message'', JStr ''boom'')])
   \<and> fst (putRequest (\<lambda>req. Inr (JObj [(''code'', JNum 500), (''message'', JStr ''boom'')]))
          [(''url'', JStr ''/items/1'')] any_schema any_schema JNull world0)
     = Inr (JObj [(''code'', JNum 500), (''message'', JStr ''boom'')])
   \<and> fst (patchRequest (\<lambda>req. Inr (JObj [(''code'', JNum 500), (''message'', JStr ''boom'')]))
          [(''url'', JStr ''/items/1'')] any_schema any_schema JNull world0)
     = Inr (JObj [(''code'', JNum 500), (''message'', JStr ''boom'')])
   \<and> fst (API_get (\<lambda>req. Inr (JObj [(''code'', JNum 500), (''message'', JStr ''boom'')]))
          (config_of ''https://svc'' None) ''/items/1'' JUndefined world0)
     = Inl (ProtocolError (JNum 500) (JStr ''boom''))"
proof -
  have plain:
    "fst (API_get (\<lambda>req. Inr (JObj [(''code'', JNum 500), (''message'', JStr ''boom'')]))
          (config_of ''https://svc'' None) ''/items/1'' JUndefined world0)
     = Inl (ProtocolError (JNum 500) (JStr ''boom''))"
    by (simp add: API_get_def axios_get_def axios_request_def unwrap_response_def
        as_ApiResponse_def nullish_def get_prop_def responseHandler_def)
  from validated_design_ignores_envelope_code
    [of "\<lambda>req. Inr (JObj [(''code'', JNum 500), (''message'', JStr ''boom'')])"
        "[(''url'', JStr ''/items/1'')]"
        "JObj [(''code'', JNum 500), (''message'', JStr ''boom'')]" any_schema
        "JObj [(''code'', JNum 500), (''message'', JStr ''boom'')]" world0 any_schema JNull JNull]
    plain
  show ?thesis by (simp add: any_schema_def)
qed

end
